theory Spec2Isabelle
  imports Complex_Main "HOL-Library.Product_Lexorder"
begin

section \<open>The ledger of rov-accounting\<close>

text \<open>
  A shallow embedding of \<^verbatim>\<open>models.py\<close>, \<^verbatim>\<open>database.py\<close> and the store-facing
  functions of \<^verbatim>\<open>app.py\<close>.

  \<^item> The database is a record of tables, each table the list of its rows in insertion
    order. A session that commits returns the updated record; a rollback returns the
    record it started from.
  \<^item> Columns of SQL type \<^verbatim>\<open>Float\<close> are read as \<^typ>\<open>real\<close>: sums and products are
    the exact ones, rounding is not modelled.
  \<^item> The column \<^verbatim>\<open>Transaction.type\<close> is declared \<^verbatim>\<open>Enum(TransactionType)\<close>. The table
    holds a string. The object-relational mapper hands a loaded row's \<^verbatim>\<open>type\<close> to Python
    as the member of \<^verbatim>\<open>TransactionType\<close> whose \<^emph>\<open>name\<close> is stored (the code reads
    \<^verbatim>\<open>t.type.value\<close> in \<^verbatim>\<open>view_transactions_page\<close> and \<^verbatim>\<open>self.type.value\<close> in
    \<^verbatim>\<open>Transaction.__repr__\<close>), and refuses any other stored string, which is what
    \<^verbatim>\<open>fix_enum_data\<close> repairs. A string that the code assigns to \<^verbatim>\<open>type\<close> is written
    as it is.
  \<^item> A Python exception is a value of type \<open>error\<close>.
\<close>

subsection \<open>Python values that meet in comparisons\<close>

datatype TransactionType = INCOME | EXPENSE

fun TransactionType_value :: "TransactionType \<Rightarrow> string" where
  "TransactionType_value INCOME = ''income''"
| "TransactionType_value EXPENSE = ''expense''"

fun TransactionType_name :: "TransactionType \<Rightarrow> string" where
  "TransactionType_name INCOME = ''INCOME''"
| "TransactionType_name EXPENSE = ''EXPENSE''"

text \<open>
  \<^verbatim>\<open>TransactionType\<close> derives from \<^verbatim>\<open>enum.Enum\<close> only, so \<^verbatim>\<open>==\<close> between a member and
  a \<^verbatim>\<open>str\<close> is identity comparison and answers \<^verbatim>\<open>False\<close>.
\<close>

datatype py_value = Member TransactionType | Str string

fun py_eq :: "py_value \<Rightarrow> py_value \<Rightarrow> bool" where
  "py_eq (Member a) (Member b) = (a = b)"
| "py_eq (Str s) (Str t) = (s = t)"
| "py_eq (Member a) (Str t) = False"
| "py_eq (Str s) (Member b) = False"

datatype error =
    LookupError
  | KeyError
  | ZeroDivisionError
  | OverflowError
  | Base64Error

subsection \<open>Dates\<close>

datatype date = Date (year: nat) (month: nat) (day: nat)

definition is_leap :: "nat \<Rightarrow> bool" where
  "is_leap y = (y mod 4 = 0 \<and> (y mod 100 \<noteq> 0 \<or> y mod 400 = 0))"

definition days_before_year :: "nat \<Rightarrow> int" where
  "days_before_year y =
     (let p = int y - 1 in p * 365 + p div 4 - p div 100 + p div 400)"

definition days_before_month :: "nat \<Rightarrow> nat \<Rightarrow> int" where
  "days_before_month y m =
     int ([0, 0, 31, 59, 90, 120, 151, 181, 212, 243, 273, 304, 334] ! m)
       + (if 2 < m \<and> is_leap y then 1 else 0)"

text \<open>\<^verbatim>\<open>date.toordinal()\<close>; dates compare as their ordinals do. Months are 1 to 12.\<close>

definition toordinal :: "date \<Rightarrow> int" where
  "toordinal d = days_before_year (year d) + days_before_month (year d) (month d) + int (day d)"

subsection \<open>Tables (models.py)\<close>

record User =
  u_id :: nat
  username :: string
  password_hash :: string
  role :: string

record Account =
  a_id :: nat
  a_name :: string
  currency_code :: string

record ExchangeRate =
  r_id :: nat
  r_date :: date
  usd_to_inr :: real

record Category =
  c_id :: nat
  c_name :: string

record Transaction =
  t_id :: nat
  t_date :: date
  t_type :: string
  amount :: real
  description :: "string option"
  counterparty :: "string option"
  is_void :: bool
  exchange_rate :: "real option"
  transfer_id :: "nat option"
  account_id :: nat
  category_id :: nat

record store =
  users :: "User list"
  accounts :: "Account list"
  exchange_rates :: "ExchangeRate list"
  categories :: "Category list"
  transactions :: "Transaction list"

definition empty_store :: store where
  "empty_store =
     \<lparr>users = [], accounts = [], exchange_rates = [], categories = [], transactions = []\<rparr>"

text \<open>
  An integer primary key that the insert leaves out gets the largest key of the table
  plus one, and 1 in an empty table.
\<close>

definition next_id :: "nat list \<Rightarrow> nat" where
  "next_id ids = fold max ids 0 + 1"

text \<open>\<^verbatim>\<open>query.filter(...).first()\<close>: the first row that passes, or \<^verbatim>\<open>None\<close>.\<close>

definition first :: "('a \<Rightarrow> bool) \<Rightarrow> 'a list \<Rightarrow> 'a option" where
  "first p rows = find p rows"

subsection \<open>Loading a transaction through the mapper\<close>

definition load_type :: "string \<Rightarrow> error + TransactionType" where
  "load_type s =
     (if s = TransactionType_name INCOME then Inr INCOME
      else if s = TransactionType_name EXPENSE then Inr EXPENSE
      else Inl LookupError)"

text \<open>
  A loaded \<^verbatim>\<open>Transaction\<close> object: its \<^verbatim>\<open>type\<close> attribute and the row it came from.
  Loading a result set raises when one of its rows does.
\<close>

fun load_all :: "Transaction list \<Rightarrow> error + (TransactionType \<times> Transaction) list" where
  "load_all [] = Inr []"
| "load_all (t # ts) =
     (case load_type (t_type t) of
        Inl e \<Rightarrow> Inl e
      | Inr ty \<Rightarrow> (case load_all ts of Inl e \<Rightarrow> Inl e | Inr ls \<Rightarrow> Inr ((ty, t) # ls)))"

subsection \<open>Account.balance and get_account_balance\<close>

text \<open>The relationship \<^verbatim>\<open>Account.transactions\<close>: the rows whose foreign key is the account.\<close>

definition Account_transactions :: "store \<Rightarrow> Account \<Rightarrow> Transaction list" where
  "Account_transactions st a = filter (\<lambda>t. account_id t = a_id a) (transactions st)"

text \<open>
  The loop of \<^verbatim>\<open>Account.balance\<close>, \<open>tot\<close> being the accumulator \<^verbatim>\<open>total\<close>:
  \<^verbatim>\<open>
  if not transaction.is_void:
      if transaction.type == TransactionType.INCOME.value: total += transaction.amount
      else: total -= transaction.amount
  \<close>
\<close>

fun balance_loop :: "(TransactionType \<times> Transaction) list \<Rightarrow> real \<Rightarrow> real" where
  "balance_loop [] tot = tot"
| "balance_loop ((ty, t) # ts) tot =
     balance_loop ts
       (if \<not> is_void t then
          (if py_eq (Member ty) (Str (TransactionType_value INCOME))
           then tot + amount t
           else tot - amount t)
        else tot)"

definition balance :: "store \<Rightarrow> Account \<Rightarrow> error + real" where
  "balance st a =
     (case load_all (Account_transactions st a) of
        Inl e \<Rightarrow> Inl e
      | Inr ts \<Rightarrow> Inr (balance_loop ts 0))"

definition get_account_balance :: "store \<Rightarrow> nat \<Rightarrow> error + real" where
  "get_account_balance st aid =
     (case first (\<lambda>a. a_id a = aid) (accounts st) of
        Some a \<Rightarrow> balance st a
      | None \<Rightarrow> Inr 0)"

subsection \<open>Password hashing (database.py)\<close>

text \<open>
  Byte strings are \<^typ>\<open>string\<close>s as well. The three library functions the code calls
  are parameters of the model: PBKDF2-HMAC-SHA256 with 100000 iterations and 32 bytes
  of output (salt first, password second), \<^verbatim>\<open>base64.b64encode\<close>, and
  \<^verbatim>\<open>base64.b64decode\<close>, which raises on input that it cannot decode.
\<close>

type_synonym bytes = string

record crypto =
  pbkdf2 :: "bytes \<Rightarrow> bytes \<Rightarrow> bytes"
  b64encode :: "bytes \<Rightarrow> string"
  b64decode :: "string \<Rightarrow> error + bytes"

text \<open>\<open>rnd\<close> is what \<^verbatim>\<open>generate_salt()\<close> draws when no salt is passed.\<close>

definition hash_password :: "crypto \<Rightarrow> bytes \<Rightarrow> string \<Rightarrow> bytes option \<Rightarrow> string" where
  "hash_password cr rnd password salt_arg =
     (let salt = (case salt_arg of None \<Rightarrow> rnd | Some s \<Rightarrow> s);
          key = pbkdf2 cr salt password
      in b64encode cr (salt @ key))"

text \<open>The body of the \<^verbatim>\<open>try\<close> of \<^verbatim>\<open>verify_password\<close>.\<close>

definition verify_password_try :: "crypto \<Rightarrow> string \<Rightarrow> string \<Rightarrow> error + bool" where
  "verify_password_try cr stored_hash provided_password =
     (case b64decode cr stored_hash of
        Inl e \<Rightarrow> Inl e
      | Inr decoded \<Rightarrow>
          (let salt_from_db = take 16 decoded;
               key_from_db = drop 16 decoded;
               new_key = pbkdf2 cr salt_from_db provided_password
           in Inr (new_key = key_from_db)))"

text \<open>\<^verbatim>\<open>except Exception: return False\<close>.\<close>

definition verify_password :: "crypto \<Rightarrow> string \<Rightarrow> string \<Rightarrow> bool" where
  "verify_password cr stored_hash provided_password =
     (case verify_password_try cr stored_hash provided_password of
        Inl e \<Rightarrow> False
      | Inr b \<Rightarrow> b)"

subsection \<open>init_db (database.py)\<close>

text \<open>
  \<^verbatim>\<open>fix_enum_data\<close>: the two \<^verbatim>\<open>UPDATE\<close> statements run when the \<^verbatim>\<open>SELECT\<close> finds a
  row.
\<close>

definition fix_enum_data :: "store \<Rightarrow> store" where
  "fix_enum_data st =
     (let problematic_records =
            filter (\<lambda>t. t_type t = ''income'' \<or> t_type t = ''expense'') (transactions st)
      in if problematic_records \<noteq> [] then
           st\<lparr>transactions :=
                map (\<lambda>t. if t_type t = ''expense'' then t\<lparr>t_type := ''EXPENSE''\<rparr> else t)
                  (map (\<lambda>t. if t_type t = ''income'' then t\<lparr>t_type := ''INCOME''\<rparr> else t)
                     (transactions st))\<rparr>
         else st)"

definition default_categories :: "string list" where
  "default_categories =
     [''Client Revenue'', ''Software Expense'', ''Salary'', ''Office Supplies'',
      ''Marketing'', ''Contractor Fees'', ''Inter-Account Transfer In'',
      ''Inter-Account Transfer Out'', ''Other Income'', ''Other Expense'']"

text \<open>\<^verbatim>\<open>session.add\<close> of a new object, as the commit inserts it.\<close>

definition add_Account :: "string \<Rightarrow> string \<Rightarrow> store \<Rightarrow> store" where
  "add_Account n c st =
     st\<lparr>accounts := accounts st @
          [\<lparr>a_id = next_id (map a_id (accounts st)), a_name = n, currency_code = c\<rparr>]\<rparr>"

definition add_Category :: "string \<Rightarrow> store \<Rightarrow> store" where
  "add_Category n st =
     st\<lparr>categories := categories st @
          [\<lparr>c_id = next_id (map c_id (categories st)), c_name = n\<rparr>]\<rparr>"

definition add_User :: "string \<Rightarrow> string \<Rightarrow> string \<Rightarrow> store \<Rightarrow> store" where
  "add_User n h r st =
     st\<lparr>users := users st @
          [\<lparr>u_id = next_id (map u_id (users st)), username = n, password_hash = h, role = r\<rparr>]\<rparr>"

text \<open>
  The session is made with \<^verbatim>\<open>autoflush=False\<close>: every query of \<^verbatim>\<open>init_db\<close> reads the
  tables as \<^verbatim>\<open>fix_enum_data\<close> left them (\<open>st\<close>), the added objects are inserted by the
  one commit at the end. \<open>rnd1\<close> and \<open>rnd2\<close> are the salts drawn for the two calls of
  \<^verbatim>\<open>hash_password\<close>. No statement of the \<^verbatim>\<open>try\<close> raises on a table of this model,
  so the two \<^verbatim>\<open>except\<close> clauses have no branch here.
\<close>

definition init_db :: "crypto \<Rightarrow> bytes \<Rightarrow> bytes \<Rightarrow> store \<Rightarrow> store" where
  "init_db cr rnd1 rnd2 st0 =
     (let st = fix_enum_data st0;
          usd_account = first (\<lambda>a. currency_code a = ''USD'') (accounts st);
          inr_account = first (\<lambda>a. currency_code a = ''INR'') (accounts st);
          s1 = (if usd_account = None then add_Account ''US Business Account'' ''USD'' st else st);
          s2 = (if inr_account = None then add_Account ''India Business Account'' ''INR'' s1 else s1);
          s3 = fold (\<lambda>cat_name s.
                      if first (\<lambda>c. c_name c = cat_name) (categories st) = None
                      then add_Category cat_name s else s)
                 default_categories s2;
          admin_user = first (\<lambda>u. username u = ''admin'') (users st);
          viewer_user = first (\<lambda>u. username u = ''viewer'') (users st);
          admin_password_hash = hash_password cr rnd1 ''admin123'' None;
          viewer_password_hash = hash_password cr rnd2 ''view123'' None;
          s4 = (if admin_user = None then add_User ''admin'' admin_password_hash ''admin'' s3 else s3);
          s5 = (if viewer_user = None then add_User ''viewer'' viewer_password_hash ''viewer'' s4 else s4)
      in s5)"

subsection \<open>The rate provider (app.py)\<close>

text \<open>
  What the remote source does when asked: \<^verbatim>\<open>requests.get\<close> raises, \<^verbatim>\<open>raise_for_status\<close>
  raises, \<^verbatim>\<open>response.json()\<close> raises, \<^verbatim>\<open>data['rates']['INR']\<close> raises, or a rate
  arrives.
\<close>

datatype remote = GetFailed | BadStatus | BadJSON | MissingRate | Quote real

text \<open>Messages that a handler shows, and exceptions that leave it.\<close>

datatype outcome =
    Ok
  | Idle
  | NotFound
  | SameAccount
  | Caught error
  | Raised error

definition fetch_and_store_exchange_rate :: "remote \<Rightarrow> date \<Rightarrow> store \<Rightarrow> real \<times> store" where
  "fetch_and_store_exchange_rate rem today st =
     (case rem of
        Quote current_rate \<Rightarrow>
          (case first (\<lambda>r. r_date r = today) (exchange_rates st) of
             None \<Rightarrow>
               (current_rate,
                st\<lparr>exchange_rates := exchange_rates st @
                     [\<lparr>r_id = next_id (map r_id (exchange_rates st)), r_date = today,
                       usd_to_inr = current_rate\<rparr>]\<rparr>)
           | Some existing_rate \<Rightarrow>
               (current_rate,
                st\<lparr>exchange_rates :=
                     map (\<lambda>r. if r_id r = r_id existing_rate
                               then r\<lparr>usd_to_inr := current_rate\<rparr> else r)
                       (exchange_rates st)\<rparr>))
      | GetFailed \<Rightarrow> (83.0, st)
      | BadStatus \<Rightarrow> (83.0, st)
      | BadJSON \<Rightarrow> (83.0, st)
      | MissingRate \<Rightarrow> (83.0, st))"

text \<open>
  \<^verbatim>\<open>order_by(ExchangeRate.date.desc()).first()\<close>. Among rows of one date the earliest
  inserted is taken; the upsert above keeps one row per date.
\<close>

fun latest_by_date :: "ExchangeRate list \<Rightarrow> ExchangeRate option" where
  "latest_by_date [] = None"
| "latest_by_date (r # rs) =
     (case latest_by_date rs of
        None \<Rightarrow> Some r
      | Some r' \<Rightarrow> if toordinal (r_date r) < toordinal (r_date r') then Some r' else Some r)"

definition get_latest_exchange_rate :: "remote \<Rightarrow> date \<Rightarrow> store \<Rightarrow> real \<times> store" where
  "get_latest_exchange_rate rem today st =
     (case latest_by_date (exchange_rates st) of
        Some latest_rate \<Rightarrow> (usd_to_inr latest_rate, st)
      | None \<Rightarrow> fetch_and_store_exchange_rate rem today st)"

subsection \<open>Dropdown dictionaries and void_transaction (app.py)\<close>

text \<open>
  A dict comprehension stores its pairs one after the other, a later pair replacing an
  earlier one with the same key. The \<^verbatim>\<open>order_by\<close> of the two queries decides the order
  of the dropdown only.
\<close>

definition get_all_categories :: "store \<Rightarrow> (string \<rightharpoonup> nat)" where
  "get_all_categories st = fold (\<lambda>cat m. m(c_name cat \<mapsto> c_id cat)) (categories st) Map.empty"

text \<open>The key \<^verbatim>\<open>f"{acc.name} ({acc.currency_code})"\<close>.\<close>

definition account_label :: "Account \<Rightarrow> string" where
  "account_label acc = a_name acc @ '' ('' @ currency_code acc @ '')''"

definition get_all_accounts :: "store \<Rightarrow> (string \<rightharpoonup> nat)" where
  "get_all_accounts st = fold (\<lambda>acc m. m(account_label acc \<mapsto> a_id acc)) (accounts st) Map.empty"

definition void_transaction :: "nat \<Rightarrow> store \<Rightarrow> outcome \<times> store" where
  "void_transaction transaction_id st =
     (case first (\<lambda>t. t_id t = transaction_id) (transactions st) of
        Some tr \<Rightarrow>
          (Ok, st\<lparr>transactions :=
                    map (\<lambda>t. if t_id t = t_id tr then t\<lparr>is_void := True\<rparr> else t)
                      (transactions st)\<rparr>)
      | None \<Rightarrow> (NotFound, st))"

subsection \<open>add_transaction_page (app.py)\<close>

text \<open>
  The branch \<^verbatim>\<open>if submitted:\<close> of the form. The arguments are what the widgets
  returned; \<open>accounts\<close> and \<open>categories\<close> of the source are the two dictionaries
  of the store the page was drawn from. A \<^verbatim>\<open>KeyError\<close> of either lookup is caught by
  \<^verbatim>\<open>except Exception\<close>, which rolls back.
\<close>

definition add_transaction_page ::
  "date \<Rightarrow> string \<Rightarrow> string \<Rightarrow> real \<Rightarrow> string \<Rightarrow> string \<Rightarrow> string \<Rightarrow> bool \<Rightarrow> store
     \<Rightarrow> outcome \<times> store" where
  "add_transaction_page trans_date trans_type account_name amt category_name cparty descr
       submitted st =
     (if submitted then
        (case get_all_accounts st account_name of
           None \<Rightarrow> (Caught KeyError, st)
         | Some acc_id \<Rightarrow>
             (case get_all_categories st category_name of
                None \<Rightarrow> (Caught KeyError, st)
              | Some cat_id \<Rightarrow>
                  (Ok, st\<lparr>transactions := transactions st @
                         [\<lparr>t_id = next_id (map t_id (transactions st)),
                           t_date = trans_date,
                           t_type = trans_type,
                           amount = amt,
                           description = Some descr,
                           counterparty = Some cparty,
                           is_void = False,
                           exchange_rate = None,
                           transfer_id = None,
                           account_id = acc_id,
                           category_id = cat_id\<rparr>]\<rparr>)))
      else (Idle, st))"

subsection \<open>transfer_funds_page (app.py)\<close>

text \<open>Python's \<^verbatim>\<open>sub in s\<close> on strings.\<close>

fun py_in :: "string \<Rightarrow> string \<Rightarrow> bool" where
  "py_in sub [] = (sub = [])"
| "py_in sub (c # cs) = (take (length sub) (c # cs) = sub \<or> py_in sub cs)"

text \<open>
  The form and its submit branch; \<open>latest_rate\<close> is what \<^verbatim>\<open>get_latest_exchange_rate()\<close>
  returned when the page was drawn. The two lookups in \<open>accounts\<close> stand outside the
  \<^verbatim>\<open>try\<close>; the two lookups in \<^verbatim>\<open>get_all_categories()\<close> and the division stand
  inside, in this order: category of the withdrawal, \<^verbatim>\<open>deposit_amount\<close>, category of the
  deposit.
\<close>

definition transfer_funds_page ::
  "real \<Rightarrow> date \<Rightarrow> string \<Rightarrow> real \<Rightarrow> string \<Rightarrow> string \<Rightarrow> bool \<Rightarrow> store \<Rightarrow> outcome \<times> store" where
  "transfer_funds_page latest_rate trans_date from_account_name amt to_account_name descr
       submitted st =
     (if from_account_name \<noteq> to_account_name then
        (case get_all_accounts st from_account_name of
           None \<Rightarrow> (Raised KeyError, st)
         | Some from_acc_id \<Rightarrow>
        (case get_all_accounts st to_account_name of
           None \<Rightarrow> (Raised KeyError, st)
         | Some to_acc_id \<Rightarrow>
        if submitted then
          (case get_all_categories st ''Inter-Account Transfer Out'' of
             None \<Rightarrow> (Caught KeyError, st)
           | Some out_id \<Rightarrow>
          if \<not> py_in ''USD'' from_account_name \<and> latest_rate = 0
          then (Caught ZeroDivisionError, st)
          else
          (case get_all_categories st ''Inter-Account Transfer In'' of
             None \<Rightarrow> (Caught KeyError, st)
           | Some in_id \<Rightarrow>
               (let withdrawal =
                      \<lparr>t_id = next_id (map t_id (transactions st)),
                       t_date = trans_date,
                       t_type = TransactionType_value EXPENSE,
                       amount = amt,
                       description = Some descr,
                       counterparty = Some ''Internal Transfer'',
                       is_void = False,
                       exchange_rate = Some latest_rate,
                       transfer_id = None,
                       account_id = from_acc_id,
                       category_id = out_id\<rparr>;
                    deposit_amount =
                      (if py_in ''USD'' from_account_name then amt * latest_rate
                       else amt / latest_rate);
                    deposit =
                      \<lparr>t_id = next_id (map t_id (transactions st)) + 1,
                       t_date = trans_date,
                       t_type = TransactionType_value INCOME,
                       amount = deposit_amount,
                       description = Some descr,
                       counterparty = Some ''Internal Transfer'',
                       is_void = False,
                       exchange_rate = Some latest_rate,
                       transfer_id = None,
                       account_id = to_acc_id,
                       category_id = in_id\<rparr>
                in (Ok, st\<lparr>transactions := transactions st @ [withdrawal, deposit]\<rparr>))))
        else (Idle, st)))
      else (SameAccount, st))"

subsection \<open>get_profit_loss_data (app.py)\<close>











subsection \<open>The stores that the application produces\<close>

text \<open>
  \<^verbatim>\<open>main()\<close> runs \<^verbatim>\<open>init_db()\<close> before any page; the pages then read the rate, add,
  transfer and void.
\<close>

inductive reachable :: "store \<Rightarrow> bool" where
  start: "reachable (init_db cr rnd1 rnd2 empty_store)"
| again: "reachable st \<Longrightarrow> reachable (init_db cr rnd1 rnd2 st)"
| rate: "reachable st \<Longrightarrow> reachable (snd (get_latest_exchange_rate rem today st))"
| fetch: "reachable st \<Longrightarrow> reachable (snd (fetch_and_store_exchange_rate rem today st))"
| add: "reachable st \<Longrightarrow>
    reachable (snd (add_transaction_page trans_date trans_type account_name amt category_name
                      cparty descr submitted st))"
| transfer: "reachable st \<Longrightarrow>
    reachable (snd (transfer_funds_page latest_rate trans_date from_account_name amt
                      to_account_name descr submitted st))"
| void: "reachable st \<Longrightarrow> reachable (snd (void_transaction transaction_id st))"

subsection \<open>Concrete inputs\<close>

text \<open>
  Stand-ins for the three library functions, used where a statement is evaluated at a
  concrete input: the key is the first 32 bytes of salt, password and padding, the
  encoding is the identity, and decoding refuses a string that holds \<open>!\<close>.
\<close>

definition example_crypto :: crypto where
  "example_crypto =
     \<lparr>pbkdf2 = (\<lambda>salt password. take 32 (salt @ password @ replicate 32 (CHR ''k''))),
      b64encode = (\<lambda>b. b),
      b64decode = (\<lambda>s. if CHR ''!'' \<in> set s then Inl Base64Error else Inr s)\<rparr>"

text \<open>The rows that \<^verbatim>\<open>init_db\<close> writes into empty tables.\<close>

definition seed_accounts :: "Account list" where
  "seed_accounts =
     [\<lparr>a_id = 1, a_name = ''US Business Account'', currency_code = ''USD''\<rparr>,
      \<lparr>a_id = 2, a_name = ''India Business Account'', currency_code = ''INR''\<rparr>]"

definition seed_categories :: "Category list" where
  "seed_categories =
     [\<lparr>c_id = 1, c_name = ''Client Revenue''\<rparr>,
      \<lparr>c_id = 2, c_name = ''Software Expense''\<rparr>,
      \<lparr>c_id = 3, c_name = ''Salary''\<rparr>,
      \<lparr>c_id = 4, c_name = ''Office Supplies''\<rparr>,
      \<lparr>c_id = 5, c_name = ''Marketing''\<rparr>,
      \<lparr>c_id = 6, c_name = ''Contractor Fees''\<rparr>,
      \<lparr>c_id = 7, c_name = ''Inter-Account Transfer In''\<rparr>,
      \<lparr>c_id = 8, c_name = ''Inter-Account Transfer Out''\<rparr>,
      \<lparr>c_id = 9, c_name = ''Other Income''\<rparr>,
      \<lparr>c_id = 10, c_name = ''Other Expense''\<rparr>]"

definition seed_store :: store where
  "seed_store = init_db example_crypto ''0123456789abcdef'' ''fedcba9876543210'' empty_store"

text \<open>What the two \<^verbatim>\<open>UPDATE\<close> statements of \<^verbatim>\<open>fix_enum_data\<close> do to one row.\<close>

definition fix_type :: "Transaction \<Rightarrow> Transaction" where
  "fix_type t = (if t_type t = ''income'' then t\<lparr>t_type := ''INCOME''\<rparr>
                 else if t_type t = ''expense'' then t\<lparr>t_type := ''EXPENSE''\<rparr> else t)"

text \<open>The two seeded accounts.\<close>

definition usd_account :: Account where
  "usd_account = \<lparr>a_id = 1, a_name = ''US Business Account'', currency_code = ''USD''\<rparr>"

definition inr_account :: Account where
  "inr_account = \<lparr>a_id = 2, a_name = ''India Business Account'', currency_code = ''INR''\<rparr>"

text \<open>
  One INCOME transaction of 100 on the USD account, entered through the form of
  \<^verbatim>\<open>add_transaction_page\<close> and normalised by the \<^verbatim>\<open>init_db\<close> of the next run.
\<close>

definition income_store :: store where
  "income_store =
     init_db example_crypto ''0123456789abcdef'' ''fedcba9876543210''
       (snd (add_transaction_page (Date 2024 1 5) (TransactionType_value INCOME)
               ''US Business Account (USD)'' 100 ''Client Revenue'' ''Acme'' ''Invoice 7''
               True seed_store))"

text \<open>A transfer of 100 from the USD account to the INR account at the rate 83.5.\<close>

definition transfer_store :: store where
  "transfer_store =
     snd (transfer_funds_page 83.5 (Date 2024 1 5) (account_label usd_account) 100
            (account_label inr_account) ''Inter-Account Transfer'' True seed_store)"


section \<open>Properties\<close>

subsection \<open>Seeding\<close>

text \<open>
  Table by table: \<^verbatim>\<open>fix_enum_data\<close> touches the stored types only, and \<^verbatim>\<open>init_db\<close>
  appends to accounts, categories and users the rows whose key it did not find.
\<close>

lemma fix_enum_data_other [simp]:
  "users (fix_enum_data st) = users st"
  "accounts (fix_enum_data st) = accounts st"
  "exchange_rates (fix_enum_data st) = exchange_rates st"
  "categories (fix_enum_data st) = categories st"
  by (simp_all add: fix_enum_data_def Let_def)

lemma fix_enum_data_transactions:
  "transactions (fix_enum_data st) = map fix_type (transactions st)"
proof -
  have id: "filter (\<lambda>t. t_type t = ''income'' \<or> t_type t = ''expense'') ts = [] \<Longrightarrow>
            map fix_type ts = ts" for ts
    by (induction ts) (auto simp: fix_type_def split: if_splits)
  have upd: "map (\<lambda>t. if t_type t = ''expense'' then t\<lparr>t_type := ''EXPENSE''\<rparr> else t)
               (map (\<lambda>t. if t_type t = ''income'' then t\<lparr>t_type := ''INCOME''\<rparr> else t) ts)
             = map fix_type ts" for ts
    by (induction ts) (auto simp: fix_type_def)
  show ?thesis
    by (auto simp add: fix_enum_data_def Let_def id fix_type_def)
qed

lemma fold_add_Category_other:
  "users (fold (\<lambda>n s. if P n then add_Category n s else s) ns s) = users s"
  "accounts (fold (\<lambda>n s. if P n then add_Category n s else s) ns s) = accounts s"
  "exchange_rates (fold (\<lambda>n s. if P n then add_Category n s else s) ns s) = exchange_rates s"
  "transactions (fold (\<lambda>n s. if P n then add_Category n s else s) ns s) = transactions s"
  by (induction ns arbitrary: s; simp add: add_Category_def)+

lemma fold_add_Category_none:
  "\<forall>n \<in> set ns. \<not> P n \<Longrightarrow> fold (\<lambda>n s. if P n then add_Category n s else s) ns s = s"
  by (induction ns arbitrary: s) simp_all

lemma fold_add_Category_categories:
  "categories (fold (\<lambda>n s. if P n then add_Category n s else s) ns s) =
   fold (\<lambda>n cs. if P n then cs @ [\<lparr>c_id = next_id (map c_id cs), c_name = n\<rparr>] else cs)
     ns (categories s)"
  by (induction ns arbitrary: s) (simp_all add: add_Category_def)

lemma init_db_transactions:
  "transactions (init_db cr rnd1 rnd2 st) = map fix_type (transactions st)"
  by (simp add: init_db_def Let_def fold_add_Category_other add_User_def add_Account_def
      fix_enum_data_transactions)

lemma init_db_exchange_rates:
  "exchange_rates (init_db cr rnd1 rnd2 st) = exchange_rates st"
  by (simp add: init_db_def Let_def fold_add_Category_other add_User_def add_Account_def)

lemma init_db_accounts:
  "accounts (init_db cr rnd1 rnd2 st) =
     (let a = accounts st;
          a1 = (if first (\<lambda>a. currency_code a = ''USD'') a = None
                then a @ [\<lparr>a_id = next_id (map a_id a), a_name = ''US Business Account'',
                            currency_code = ''USD''\<rparr>] else a);
          a2 = (if first (\<lambda>a. currency_code a = ''INR'') a = None
                then a1 @ [\<lparr>a_id = next_id (map a_id a1), a_name = ''India Business Account'',
                             currency_code = ''INR''\<rparr>] else a1)
      in a2)"
  by (simp add: init_db_def Let_def fold_add_Category_other add_User_def add_Account_def)

lemma init_db_categories:
  "categories (init_db cr rnd1 rnd2 st) =
     fold (\<lambda>n cs. if first (\<lambda>c. c_name c = n) (categories st) = None
                    then cs @ [\<lparr>c_id = next_id (map c_id cs), c_name = n\<rparr>] else cs)
       default_categories (categories st)"
  by (simp add: init_db_def Let_def fold_add_Category_categories add_User_def add_Account_def)

lemma init_db_users:
  "users (init_db cr rnd1 rnd2 st) =
     (let u = users st;
          u1 = (if first (\<lambda>u. username u = ''admin'') u = None
                then u @ [\<lparr>u_id = next_id (map u_id u), username = ''admin'',
                            password_hash = hash_password cr rnd1 ''admin123'' None,
                            role = ''admin''\<rparr>] else u);
          u2 = (if first (\<lambda>u. username u = ''viewer'') u = None
                then u1 @ [\<lparr>u_id = next_id (map u_id u1), username = ''viewer'',
                             password_hash = hash_password cr rnd2 ''view123'' None,
                             role = ''viewer''\<rparr>] else u1)
      in u2)"
  by (simp add: init_db_def Let_def fold_add_Category_other add_User_def add_Account_def)

lemma init_db_accounts_seed:
  "accounts st = seed_accounts \<Longrightarrow> accounts (init_db cr rnd1 rnd2 st) = seed_accounts"
  by (simp add: init_db_accounts Let_def) (simp add: seed_accounts_def first_def)


lemma init_db_empty:
  "init_db cr rnd1 rnd2 empty_store =
     \<lparr>users =
        [\<lparr>u_id = 1, username = ''admin'',
          password_hash = hash_password cr rnd1 ''admin123'' None, role = ''admin''\<rparr>,
         \<lparr>u_id = 2, username = ''viewer'',
          password_hash = hash_password cr rnd2 ''view123'' None, role = ''viewer''\<rparr>],
      accounts = seed_accounts,
      exchange_rates = [],
      categories = seed_categories,
      transactions = []\<rparr>"
  by (simp add: init_db_def fix_enum_data_def empty_store_def Let_def first_def
      default_categories_def add_Account_def add_Category_def add_User_def next_id_def
      seed_accounts_def seed_categories_def)

lemma first_None_iff: "first p rows = None \<longleftrightarrow> (\<forall>x \<in> set rows. \<not> p x)"
  by (auto simp: first_def find_None_iff)

lemma fix_type_fixed: "t_type (fix_type t) \<noteq> ''income'' \<and> t_type (fix_type t) \<noteq> ''expense''"
  by (simp add: fix_type_def)

lemma fix_enum_data_fixed:
  "\<forall>t \<in> set (transactions st). t_type t \<noteq> ''income'' \<and> t_type t \<noteq> ''expense'' \<Longrightarrow>
   fix_enum_data st = st"
proof -
  assume "\<forall>t \<in> set (transactions st). t_type t \<noteq> ''income'' \<and> t_type t \<noteq> ''expense''"
  then have "filter (\<lambda>t. t_type t = ''income'' \<or> t_type t = ''expense'') (transactions st) = []"
    by (auto simp: filter_empty_conv)
  then show ?thesis
    by (simp add: fix_enum_data_def)
qed

lemma fix_enum_data_init_db:
  "fix_enum_data (init_db cr rnd1 rnd2 st) = init_db cr rnd1 rnd2 st"
  by (rule fix_enum_data_fixed) (auto simp: init_db_transactions fix_type_def)

lemma fold_ensure_mono:
  "set cs \<subseteq> set (fold (\<lambda>n cs. if P n then cs @ [\<lparr>c_id = next_id (map c_id cs), c_name = n\<rparr>] else cs) ns cs)"
proof (induction ns arbitrary: cs)
  case Nil
  then show ?case by simp
next
  case (Cons n ns)
  show ?case
    using Cons.IH [of "if P n then cs @ [\<lparr>c_id = next_id (map c_id cs), c_name = n\<rparr>] else cs"]
    by (auto split: if_splits)
qed

lemma fold_ensure_present:
  assumes "\<forall>n \<in> set ns. \<not> P n \<longrightarrow> (\<exists>c \<in> set cs. c_name c = n)"
  shows "\<forall>n \<in> set ns. \<exists>c \<in> set (fold (\<lambda>n cs. if P n then cs @ [\<lparr>c_id = next_id (map c_id cs), c_name = n\<rparr>] else cs) ns cs). c_name c = n"
  using assms
proof (induction ns arbitrary: cs)
  case Nil
  then show ?case by simp
next
  case (Cons n ns)
  let ?g = "\<lambda>n cs. if P n then cs @ [\<lparr>c_id = next_id (map c_id cs), c_name = n\<rparr>] else cs"
  have here: "\<exists>c \<in> set (?g n cs). c_name c = n"
    using Cons.prems by auto
  have sub: "set cs \<subseteq> set (?g n cs)" by auto
  have "\<forall>m \<in> set ns. \<not> P m \<longrightarrow> (\<exists>c \<in> set (?g n cs). c_name c = m)"
    using Cons.prems sub by (meson list.set_intros(2) subsetD)
  from Cons.IH [OF this] have rest: "\<forall>m \<in> set ns. \<exists>c \<in> set (fold ?g ns (?g n cs)). c_name c = m" .
  from here fold_ensure_mono [of "?g n cs" P ns]
  have "\<exists>c \<in> set (fold ?g ns (?g n cs)). c_name c = n" by blast
  with rest show ?case by simp
qed

lemma init_db_has_categories:
  "\<forall>n \<in> set default_categories.
     first (\<lambda>c. c_name c = n) (categories (init_db cr rnd1 rnd2 st)) \<noteq> None"
proof -
  have "\<forall>n \<in> set default_categories.
          \<exists>c \<in> set (categories (init_db cr rnd1 rnd2 st)). c_name c = n"
    unfolding init_db_categories
    by (rule fold_ensure_present) (auto simp: first_None_iff)
  then show ?thesis
    by (auto simp: first_None_iff)
qed

lemma init_db_has_accounts:
  "first (\<lambda>a. currency_code a = ''USD'') (accounts (init_db cr rnd1 rnd2 st)) \<noteq> None"
  "first (\<lambda>a. currency_code a = ''INR'') (accounts (init_db cr rnd1 rnd2 st)) \<noteq> None"
  by (auto simp: init_db_accounts Let_def first_None_iff)

lemma init_db_has_users:
  "first (\<lambda>u. username u = ''admin'') (users (init_db cr rnd1 rnd2 st)) \<noteq> None"
  "first (\<lambda>u. username u = ''viewer'') (users (init_db cr rnd1 rnd2 st)) \<noteq> None"
  by (auto simp: init_db_users Let_def first_None_iff)

lemma init_db_fixpoint:
  assumes "fix_enum_data s = s"
    and "first (\<lambda>a. currency_code a = ''USD'') (accounts s) \<noteq> None"
    and "first (\<lambda>a. currency_code a = ''INR'') (accounts s) \<noteq> None"
    and "\<forall>n \<in> set default_categories. first (\<lambda>c. c_name c = n) (categories s) \<noteq> None"
    and "first (\<lambda>u. username u = ''admin'') (users s) \<noteq> None"
    and "first (\<lambda>u. username u = ''viewer'') (users s) \<noteq> None"
  shows "init_db cr rnd1 rnd2 s = s"
proof -
  have c: "fold (\<lambda>cat_name s'. if first (\<lambda>c. c_name c = cat_name) (categories s) = None
                                   then add_Category cat_name s' else s')
             default_categories s' = s'" for s'
    using assms(4) by (intro fold_add_Category_none) simp
  show ?thesis
    using assms(1,2,3,5,6) by (auto simp: init_db_def Let_def c)
qed

lemma init_db_idem:
  "init_db cr' rnd3 rnd4 (init_db cr rnd1 rnd2 st) = init_db cr rnd1 rnd2 st"
  by (rule init_db_fixpoint [OF fix_enum_data_init_db init_db_has_accounts
        init_db_has_categories init_db_has_users])

text \<open>
  C8. Running \<^verbatim>\<open>init_db\<close> on the store that a run of \<^verbatim>\<open>init_db\<close> left gives that
  store again, whatever the first run started from and whatever salts are drawn: an
  account is matched by its currency code, a category by its name, a user by its
  username. Started from empty tables, a run leaves two accounts, USD and INR, the ten
  default categories, whose names are distinct, and the users admin and viewer.
\<close>

theorem init_db_twice:
  "init_db cr' rnd3 rnd4 (init_db cr rnd1 rnd2 st) = init_db cr rnd1 rnd2 st
   \<and> map currency_code (accounts (init_db cr rnd1 rnd2 empty_store)) = [''USD'', ''INR'']
   \<and> map c_name (categories (init_db cr rnd1 rnd2 empty_store)) = default_categories
   \<and> length default_categories = 10
   \<and> distinct default_categories
   \<and> map username (users (init_db cr rnd1 rnd2 empty_store)) = [''admin'', ''viewer'']"
  by (simp add: init_db_idem init_db_empty seed_accounts_def seed_categories_def
      default_categories_def)

theorem init_db_twice_witness:
  "init_db example_crypto ''aaaaaaaaaaaaaaaa'' ''bbbbbbbbbbbbbbbb'' seed_store = seed_store
   \<and> length (accounts seed_store) = 2 \<and> length (categories seed_store) = 10
   \<and> length (users seed_store) = 2"
  using init_db_twice [of example_crypto "''aaaaaaaaaaaaaaaa''" "''bbbbbbbbbbbbbbbb''"
      example_crypto "''0123456789abcdef''" "''fedcba9876543210''" empty_store]
  unfolding seed_store_def
  by (simp add: init_db_empty seed_accounts_def seed_categories_def)

subsection \<open>The stores that the application produces\<close>

text \<open>
  The handlers write transactions or exchange rates and nothing else, so every store
  that the application produces holds the seeded accounts and categories.
\<close>

lemma void_transaction_other [simp]:
  "users (snd (void_transaction i st)) = users st"
  "accounts (snd (void_transaction i st)) = accounts st"
  "exchange_rates (snd (void_transaction i st)) = exchange_rates st"
  "categories (snd (void_transaction i st)) = categories st"
  by (simp_all add: void_transaction_def split: option.splits)

lemma void_transaction_transactions:
  "transactions (snd (void_transaction i st)) =
     map (\<lambda>t. if t_id t = i then t\<lparr>is_void := True\<rparr> else t) (transactions st)"
proof (cases "first (\<lambda>t. t_id t = i) (transactions st)")
  case None
  then have "\<forall>t \<in> set (transactions st). t_id t \<noteq> i"
    by (simp add: first_def find_None_iff)
  then have "map (\<lambda>t. if t_id t = i then t\<lparr>is_void := True\<rparr> else t) (transactions st)
             = transactions st"
    by (simp add: map_idI)
  with None show ?thesis by (simp add: void_transaction_def)
next
  case (Some tr)
  then have "t_id tr = i"
    by (auto simp: first_def find_Some_iff)
  with Some show ?thesis by (simp add: void_transaction_def)
qed

lemma add_transaction_page_other [simp]:
  "users (snd (add_transaction_page d ty an amt cn cp ds sub st)) = users st"
  "accounts (snd (add_transaction_page d ty an amt cn cp ds sub st)) = accounts st"
  "exchange_rates (snd (add_transaction_page d ty an amt cn cp ds sub st)) = exchange_rates st"
  "categories (snd (add_transaction_page d ty an amt cn cp ds sub st)) = categories st"
  by (simp_all add: add_transaction_page_def split: option.splits)

lemma transfer_funds_page_other [simp]:
  "users (snd (transfer_funds_page r d f amt t ds sub st)) = users st"
  "accounts (snd (transfer_funds_page r d f amt t ds sub st)) = accounts st"
  "exchange_rates (snd (transfer_funds_page r d f amt t ds sub st)) = exchange_rates st"
  "categories (snd (transfer_funds_page r d f amt t ds sub st)) = categories st"
  by (simp_all add: transfer_funds_page_def Let_def split: option.splits)

lemma fetch_and_store_other [simp]:
  "users (snd (fetch_and_store_exchange_rate rem today st)) = users st"
  "accounts (snd (fetch_and_store_exchange_rate rem today st)) = accounts st"
  "categories (snd (fetch_and_store_exchange_rate rem today st)) = categories st"
  "transactions (snd (fetch_and_store_exchange_rate rem today st)) = transactions st"
  by (simp_all add: fetch_and_store_exchange_rate_def split: remote.splits option.splits)

lemma get_latest_other [simp]:
  "users (snd (get_latest_exchange_rate rem today st)) = users st"
  "accounts (snd (get_latest_exchange_rate rem today st)) = accounts st"
  "categories (snd (get_latest_exchange_rate rem today st)) = categories st"
  "transactions (snd (get_latest_exchange_rate rem today st)) = transactions st"
  by (simp_all add: get_latest_exchange_rate_def split: option.splits)


lemma seed_store_tables:
  "accounts seed_store = seed_accounts" "categories seed_store = seed_categories"
  "transactions seed_store = []" "exchange_rates seed_store = []"
  by (simp_all add: seed_store_def init_db_empty)

lemma reachable_seed_store: "reachable seed_store"
  unfolding seed_store_def by (rule reachable.start)

lemma seed_accounts_dict:
  "accounts st = seed_accounts \<Longrightarrow>
   get_all_accounts st =
     [''US Business Account (USD)'' \<mapsto> 1, ''India Business Account (INR)'' \<mapsto> 2]"
  by (simp add: get_all_accounts_def seed_accounts_def account_label_def)

lemma seed_categories_dict:
  "categories st = seed_categories \<Longrightarrow>
   get_all_categories st =
     [''Client Revenue'' \<mapsto> 1, ''Software Expense'' \<mapsto> 2, ''Salary'' \<mapsto> 3,
      ''Office Supplies'' \<mapsto> 4, ''Marketing'' \<mapsto> 5, ''Contractor Fees'' \<mapsto> 6,
      ''Inter-Account Transfer In'' \<mapsto> 7, ''Inter-Account Transfer Out'' \<mapsto> 8,
      ''Other Income'' \<mapsto> 9, ''Other Expense'' \<mapsto> 10]"
  by (simp add: get_all_categories_def seed_categories_def)

lemma seed_dict_lookups:
  "get_all_accounts seed_store ''US Business Account (USD)'' = Some 1"
  "get_all_accounts seed_store ''India Business Account (INR)'' = Some 2"
  "get_all_categories seed_store ''Client Revenue'' = Some 1"
  "get_all_categories seed_store ''Salary'' = Some 3"
  by (simp_all add: seed_accounts_dict [OF seed_store_tables(1)]
      seed_categories_dict [OF seed_store_tables(2)])

subsection \<open>Transfers\<close>

lemma py_in_labels:
  "py_in ''USD'' ''US Business Account (USD)''"
  "\<not> py_in ''USD'' ''India Business Account (INR)''"
  by simp_all

lemma transfer_usd_to_inr:
  assumes "accounts st = seed_accounts" "categories st = seed_categories"
  shows "transfer_funds_page r d ''US Business Account (USD)'' amt
           ''India Business Account (INR)'' ds True st =
         (Ok, st\<lparr>transactions := transactions st @
            [\<lparr>t_id = next_id (map t_id (transactions st)), t_date = d,
              t_type = ''expense'', amount = amt, description = Some ds,
              counterparty = Some ''Internal Transfer'', is_void = False,
              exchange_rate = Some r, transfer_id = None, account_id = 1, category_id = 8\<rparr>,
             \<lparr>t_id = next_id (map t_id (transactions st)) + 1, t_date = d,
              t_type = ''income'', amount = amt * r, description = Some ds,
              counterparty = Some ''Internal Transfer'', is_void = False,
              exchange_rate = Some r, transfer_id = None, account_id = 2, category_id = 7\<rparr>]\<rparr>)"
  by (simp add: transfer_funds_page_def seed_accounts_dict [OF assms(1)]
      seed_categories_dict [OF assms(2)] py_in_labels Let_def del: py_in.simps)


lemma transfer_store_transactions:
  "transactions transfer_store =
     [\<lparr>t_id = 1, t_date = Date 2024 1 5, t_type = ''expense'', amount = 100,
       description = Some ''Inter-Account Transfer'',
       counterparty = Some ''Internal Transfer'', is_void = False,
       exchange_rate = Some 83.5, transfer_id = None, account_id = 1, category_id = 8\<rparr>,
      \<lparr>t_id = 2, t_date = Date 2024 1 5, t_type = ''income'', amount = 8350,
       description = Some ''Inter-Account Transfer'',
       counterparty = Some ''Internal Transfer'', is_void = False,
       exchange_rate = Some 83.5, transfer_id = None, account_id = 2, category_id = 7\<rparr>]"
proof -
  have lab: "account_label usd_account = ''US Business Account (USD)''"
    "account_label inr_account = ''India Business Account (INR)''"
    by (simp_all add: account_label_def usd_account_def inr_account_def)
  show ?thesis
    unfolding transfer_store_def lab
      transfer_usd_to_inr [OF seed_store_tables(1) seed_store_tables(2)]
    by (simp add: seed_store_tables next_id_def)
qed

lemma reachable_transfer_store: "reachable transfer_store"
  unfolding transfer_store_def by (rule reachable.transfer [OF reachable_seed_store])





subsection \<open>transfer_id\<close>

lemma add_transaction_page_new:
  "set (transactions (snd (add_transaction_page d ty an amt cn cp ds sub st)))
     \<subseteq> set (transactions st) \<union> {t. transfer_id t = None}"
  by (auto simp: add_transaction_page_def split: option.splits)

lemma transfer_funds_page_new:
  "set (drop (length (transactions st))
          (transactions (snd (transfer_funds_page r d f amt t ds sub st))))
     \<subseteq> {t. transfer_id t = None}"
  "take (length (transactions st))
          (transactions (snd (transfer_funds_page r d f amt t ds sub st))) = transactions st"
  by (auto simp: transfer_funds_page_def Let_def split: option.splits)

lemma transfer_funds_page_set:
  "set (transactions (snd (transfer_funds_page r d f amt t ds sub st)))
     \<subseteq> set (transactions st) \<union> {t. transfer_id t = None}"
  by (auto simp: transfer_funds_page_def Let_def split: option.splits)

text \<open>
  C7. The two rows that \<^verbatim>\<open>transfer_funds_page\<close> appends carry no \<^verbatim>\<open>transfer_id\<close>,
  whatever the store and the form hold; and in every store that the application
  produces, every transaction has \<^verbatim>\<open>transfer_id\<close> unset.
\<close>

theorem transfer_id_never_set:
  "(\<forall>t \<in> set (drop (length (transactions st0))
        (transactions (snd (transfer_funds_page latest_rate trans_date from_account_name amt
                              to_account_name descr submitted st0)))). transfer_id t = None)
   \<and> (reachable st \<longrightarrow> (\<forall>t \<in> set (transactions st). transfer_id t = None))"
proof
  show "\<forall>t \<in> set (drop (length (transactions st0))
        (transactions (snd (transfer_funds_page latest_rate trans_date from_account_name amt
                              to_account_name descr submitted st0)))). transfer_id t = None"
    using transfer_funds_page_new(1) by blast
  show "reachable st \<longrightarrow> (\<forall>t \<in> set (transactions st). transfer_id t = None)"
  proof
    assume "reachable st"
    then show "\<forall>t \<in> set (transactions st). transfer_id t = None"
    proof (induction rule: reachable.induct)
      case (start cr rnd1 rnd2)
      then show ?case by (simp add: init_db_empty)
    next
      case (again st cr rnd1 rnd2)
      then show ?case by (auto simp: init_db_transactions fix_type_def)
    next
      case (rate st rem today)
      then show ?case by simp
    next
      case (fetch st rem today)
      then show ?case by simp
    next
      case (add st trans_date trans_type account_name amt category_name cparty descr submitted)
      then show ?case using add_transaction_page_new by blast
    next
      case (transfer st latest_rate trans_date from_account_name amt to_account_name descr submitted)
      then show ?case using transfer_funds_page_set by blast
    next
      case (void st transaction_id)
      then show ?case by (auto simp: void_transaction_transactions)
    qed
  qed
qed

theorem transfer_id_never_set_witness:
  "reachable transfer_store \<and> map transfer_id (transactions transfer_store) = [None, None]"
  using transfer_id_never_set [of seed_store "83.5" "Date 2024 1 5" "account_label usd_account" 100
      "account_label inr_account" "''Inter-Account Transfer''" True transfer_store]
    reachable_transfer_store
  by (simp add: transfer_store_transactions)

subsection \<open>Adding a transaction\<close>

lemma add_transaction_page_ok:
  "get_all_accounts st account_name = Some acc_id \<Longrightarrow>
   get_all_categories st category_name = Some cat_id \<Longrightarrow>
   add_transaction_page trans_date trans_type account_name amt category_name cparty descr True st =
     (Ok, st\<lparr>transactions := transactions st @
            [\<lparr>t_id = next_id (map t_id (transactions st)), t_date = trans_date,
              t_type = trans_type, amount = amt, description = Some descr,
              counterparty = Some cparty, is_void = False, exchange_rate = None,
              transfer_id = None, account_id = acc_id, category_id = cat_id\<rparr>]\<rparr>)"
  by (simp add: add_transaction_page_def)




subsection \<open>Balances and voids\<close>

text \<open>
  The loop of \<^verbatim>\<open>Account.balance\<close> never takes its first branch: a loaded type is a
  member, and a member is not equal to a string. It subtracts every amount that is not
  void.
\<close>

lemma balance_loop_subtracts:
  "balance_loop ts tot =
     tot - sum_list (map (\<lambda>(ty, t). amount t) (filter (\<lambda>(ty, t). \<not> is_void t) ts))"
  by (induction ts tot rule: balance_loop.induct) simp_all

lemma income_store_transactions:
  "transactions income_store =
     [\<lparr>t_id = 1, t_date = Date 2024 1 5, t_type = ''INCOME'', amount = 100,
       description = Some ''Invoice 7'', counterparty = Some ''Acme'', is_void = False,
       exchange_rate = None, transfer_id = None, account_id = 1, category_id = 1\<rparr>]"
  unfolding income_store_def init_db_transactions
    add_transaction_page_ok [OF seed_dict_lookups(1) seed_dict_lookups(3)]
  by (simp add: seed_store_tables next_id_def fix_type_def)

lemma income_store_accounts: "accounts income_store = seed_accounts"
  unfolding income_store_def
  by (rule init_db_accounts_seed) (simp add: seed_store_tables)

text \<open>
  C1. The balance of an account is meant to be the sum of its non-void INCOME amounts
  minus the sum of its non-void EXPENSE amounts. The USD account with one INCOME
  transaction of 100, entered through the form and normalised by the next
  \<^verbatim>\<open>init_db\<close>, has the balance -100, where the sum of its income is 100.
\<close>

theorem balance_subtracts_income:
  "get_account_balance income_store 1 = Inr (- 100)"
  by (simp add: get_account_balance_def income_store_accounts income_store_transactions
      first_def seed_accounts_def balance_def Account_transactions_def load_type_def)

text \<open>\<^verbatim>\<open>void_transaction\<close> sets the flag of the row with the given key; a second call changes nothing.\<close>

lemma void_transaction_twice:
  "snd (void_transaction i (snd (void_transaction i st))) = snd (void_transaction i st)"
proof -
  have "transactions (snd (void_transaction i (snd (void_transaction i st)))) =
        transactions (snd (void_transaction i st))"
    by (simp add: void_transaction_transactions)
  then show ?thesis
    by (simp add: store.equality)
qed

text \<open>
  C3. Voiding a non-void INCOME transaction is meant to lower the balance of its account
  by its amount. On the account with one INCOME transaction of 100 the balance is -100
  before \<^verbatim>\<open>void_transaction\<close> and 0 after it: the void raises it by 100.
\<close>

theorem void_income_raises_balance:
  "get_account_balance income_store 1 = Inr (- 100) \<and>
   fst (void_transaction 1 income_store) = Ok \<and>
   get_account_balance (snd (void_transaction 1 income_store)) 1 = Inr 0"
  by (simp add: get_account_balance_def income_store_accounts income_store_transactions
      void_transaction_transactions void_transaction_def
      first_def seed_accounts_def balance_def Account_transactions_def load_type_def)

subsection \<open>Monthly totals\<close>




















subsection \<open>The rate provider\<close>

text \<open>
  C9. Whatever way the remote source fails (the request, the status, the JSON, the
  missing rate), \<^verbatim>\<open>fetch_and_store_exchange_rate\<close> returns 83.0 to its caller and
  leaves every table, the exchange rates among them, as it was.
\<close>

theorem fetch_failure_falls_back:
  "(\<forall>r. rem \<noteq> Quote r) \<Longrightarrow> fetch_and_store_exchange_rate rem today st = (83.0, st)"
  by (cases rem) (simp_all add: fetch_and_store_exchange_rate_def)

theorem fetch_failure_falls_back_witness:
  "(\<forall>r. BadJSON \<noteq> Quote r) \<and>
   fetch_and_store_exchange_rate BadJSON (Date 2024 3 1) empty_store = (83.0, empty_store)"
  using fetch_failure_falls_back [of BadJSON "Date 2024 3 1" empty_store] by simp

subsection \<open>Password verification\<close>

text \<open>
  C10. \<^verbatim>\<open>verify_password\<close> answers with a truth value for every stored string: it is
  true exactly when the string decodes and the key derived from the provided password
  with the first 16 decoded bytes equals the remaining bytes. An exception of the
  \<^verbatim>\<open>try\<close> body gives \<open>False\<close>; so does a string that does not decode, and a string
  that decodes to fewer than 16 bytes (the derived key has 32 bytes, the stored key
  none).
\<close>

theorem verify_password_never_raises:
  "(verify_password cr stored_hash provided_password \<longleftrightarrow>
      (\<exists>decoded. b64decode cr stored_hash = Inr decoded \<and>
         pbkdf2 cr (take 16 decoded) provided_password = drop 16 decoded))
   \<and> (\<forall>e. verify_password_try cr stored_hash provided_password = Inl e \<longrightarrow>
         verify_password cr stored_hash provided_password = False)
   \<and> (\<forall>e. b64decode cr stored_hash = Inl e \<longrightarrow>
         verify_password cr stored_hash provided_password = False)
   \<and> (\<forall>decoded. b64decode cr stored_hash = Inr decoded \<and> length decoded < 16 \<and>
         length (pbkdf2 cr (take 16 decoded) provided_password) = 32 \<longrightarrow>
         verify_password cr stored_hash provided_password = False)"
  by (auto simp: verify_password_def verify_password_try_def Let_def split: sum.splits)

theorem verify_password_never_raises_witness:
  "b64decode example_crypto ''not!base64'' = Inl Base64Error
   \<and> verify_password example_crypto ''not!base64'' ''admin123'' = False
   \<and> b64decode example_crypto ''c2hvcnQ='' = Inr ''c2hvcnQ=''
   \<and> length ''c2hvcnQ='' < 16
   \<and> length (pbkdf2 example_crypto (take 16 ''c2hvcnQ='') ''admin123'') = 32
   \<and> verify_password example_crypto ''c2hvcnQ='' ''admin123'' = False"
  using verify_password_never_raises [of example_crypto "''not!base64''" "''admin123''"]
    verify_password_never_raises [of example_crypto "''c2hvcnQ=''" "''admin123''"]
  by (simp add: example_crypto_def)

end
